theory Spec2Isabelle
  imports Main "HOL-Library.Word" "HOL-Library.Multiset"
begin

section \<open>The rule engine of ASSIGNMENT1/rule\_Engine\_with\_AST.cpp\<close>

subsection \<open>Data model\<close>

text \<open>
  \<^verbatim>\<open>enum class NodeType { OPERATOR, OPERAND }\<close> and \<^verbatim>\<open>struct Node\<close>. A
  \<^verbatim>\<open>std::shared_ptr<Node>\<close> is a \<open>Node option\<close>: \<open>None\<close> is the null pointer. The
  functions below never write to a node that another pointer can reach, so nodes are
  values. The field \<^verbatim>\<open>value\<close> is the selector \<open>value'\<close>.
\<close>

datatype NodeType = OPERATOR | OPERAND

datatype Node =
  Node (type: NodeType) (value': string) (left: "Node option") (right: "Node option")

text \<open>
  What the code can throw: \<^verbatim>\<open>std::out_of_range\<close> from \<^verbatim>\<open>unordered_map::at\<close>, and
  the exceptions of the BSON element accessors (element not set, element of another
  type). Dereferencing a null pointer is a value of its own.
\<close>

datatype error =
  OutOfRange | UnsetElement | NeedElementTypeUtf8 | NeedElementTypeDocument | NullDereference

text \<open>
  A BSON document is an ordered sequence of keyed elements. The code tells apart UTF-8
  strings, embedded documents and everything else.
\<close>

datatype bson_value = Utf8 string | Document "(string \<times> bson_value) list" | OtherValue

type_synonym document = "(string \<times> bson_value) list"

text \<open>The fact record \<^verbatim>\<open>std::unordered_map<std::string, int>\<close>.\<close>

type_synonym facts = "string \<rightharpoonup> 32 word"

subsection \<open>Serialization: toBSON and parseBSON\<close>

text \<open>
  \<^verbatim>\<open>toBSON\<close> reads \<^verbatim>\<open>node->type\<close> without a null check; the recursive calls are
  guarded by \<^verbatim>\<open>if (node->left)\<close> and \<^verbatim>\<open>if (node->right)\<close>. The stream builder appends
  the keys in the order type, value, left, right.
\<close>

function toBSON :: "Node option \<Rightarrow> error + document" where
  "toBSON None = Inl NullDereference"
| "toBSON (Some (Node t v l r)) =
     (let doc = [(''type'', Utf8 (if t = OPERATOR then ''operator'' else ''operand'')),
                 (''value'', Utf8 v)]
      in case (if l \<noteq> None
               then (case toBSON l of
                       Inl e \<Rightarrow> Inl e
                     | Inr d \<Rightarrow> Inr (doc @ [(''left'', Document d)]))
               else Inr doc) of
           Inl e \<Rightarrow> Inl e
         | Inr doc1 \<Rightarrow>
             (if r \<noteq> None
              then (case toBSON r of
                      Inl e \<Rightarrow> Inl e
                    | Inr d \<Rightarrow> Inr (doc1 @ [(''right'', Document d)]))
              else Inr doc1))"
  by pat_completeness auto
termination
  by (relation "measure (size_option size)") auto

text \<open>
  \<^verbatim>\<open>doc[key]\<close> is the first element with that key (\<open>map_of\<close>), an unset element when
  there is none; \<^verbatim>\<open>get_utf8()\<close> and \<^verbatim>\<open>get_document()\<close> throw on an unset element and
  on an element of another type.
\<close>

fun get_utf8 :: "bson_value option \<Rightarrow> error + string" where
  "get_utf8 None = Inl UnsetElement"
| "get_utf8 (Some (Utf8 s)) = Inr s"
| "get_utf8 (Some _) = Inl NeedElementTypeUtf8"

fun get_document :: "bson_value option \<Rightarrow> error + document" where
  "get_document None = Inl UnsetElement"
| "get_document (Some (Document d)) = Inr d"
| "get_document (Some _) = Inl NeedElementTypeDocument"

definition doc_size :: "document \<Rightarrow> nat" where
  "doc_size doc = size_list (size_prod (\<lambda>_. 0) size) doc"

text \<open>
  \<^verbatim>\<open>RuleEngineDB::parseBSON\<close>: the type is read first, then the value, then the left
  and the right sub-document when the key is present. \<^verbatim>\<open>std::make_shared\<close> never
  returns null, so the result is a \<open>Node\<close>.
\<close>

function parseBSON :: "document \<Rightarrow> error + Node" where
  "parseBSON doc =
     (case get_utf8 (map_of doc ''type'') of
        Inl e \<Rightarrow> Inl e
      | Inr ty \<Rightarrow>
     (case get_utf8 (map_of doc ''value'') of
        Inl e \<Rightarrow> Inl e
      | Inr v \<Rightarrow>
     (let t = (if ty = ''operator'' then OPERATOR else OPERAND) in
      case (if map_of doc ''left'' \<noteq> None
            then (case get_document (map_of doc ''left'') of
                    Inl e \<Rightarrow> Inl e
                  | Inr d \<Rightarrow> (case parseBSON d of Inl e \<Rightarrow> Inl e | Inr n \<Rightarrow> Inr (Some n)))
            else Inr None) of
        Inl e \<Rightarrow> Inl e
      | Inr l \<Rightarrow>
     (case (if map_of doc ''right'' \<noteq> None
            then (case get_document (map_of doc ''right'') of
                    Inl e \<Rightarrow> Inl e
                  | Inr d \<Rightarrow> (case parseBSON d of Inl e \<Rightarrow> Inl e | Inr n \<Rightarrow> Inr (Some n)))
            else Inr None) of
        Inl e \<Rightarrow> Inl e
      | Inr r \<Rightarrow> Inr (Node t v l r)))))"
  by pat_completeness auto
termination
proof (relation "measure doc_size")
  have smaller: "doc_size d < doc_size doc"
    if a: "get_document (map_of doc k) = Inr d" for doc k d
  proof -
    have "map_of doc k = Some (Document d)"
    proof (cases "map_of doc k")
      case None
      with a show ?thesis by simp
    next
      case (Some b)
      with a show ?thesis by (cases b) simp_all
    qed
    then have "(k, Document d) \<in> set doc"
      by (rule map_of_SomeD)
    then show ?thesis
      unfolding doc_size_def by (induction doc) auto
  qed
  show "wf (measure doc_size)" by simp
  show "(d, doc) \<in> measure doc_size"
    if "get_document (map_of doc ''left'') = Inr d" for doc d
    using smaller [OF that] by simp
  show "(d, doc) \<in> measure doc_size"
    if "get_document (map_of doc ''right'') = Inr d" for doc d
    using smaller [OF that] by simp
qed

declare parseBSON.simps [simp del]

subsection \<open>Combining rules\<close>

text \<open>
  The body of the \<^verbatim>\<open>for\<close> loop of \<^verbatim>\<open>combineRules\<close>: the rule fills the left slot of
  the root while that is null, else the right slot while that is null, else a new AND
  root is put above the old root and the rule.
\<close>

definition combineRules_step :: "Node \<Rightarrow> Node option \<Rightarrow> Node" where
  "combineRules_step root rule =
     (if left root = None then Node (type root) (value' root) rule (right root)
      else if right root = None then Node (type root) (value' root) (left root) rule
      else Node OPERATOR ''AND'' (Some root) rule)"

fun combineRules_loop :: "Node \<Rightarrow> Node option list \<Rightarrow> Node" where
  "combineRules_loop root [] = root"
| "combineRules_loop root (rule # rules) = combineRules_loop (combineRules_step root rule) rules"

definition combineRules :: "Node option list \<Rightarrow> Node option" where
  "combineRules rules = Some (combineRules_loop (Node OPERATOR ''AND'' None None) rules)"

subsection \<open>Evaluation\<close>

text \<open>
  \<^verbatim>\<open>evaluateAST\<close>. \<^verbatim>\<open>data.at("age")\<close> throws when the key is absent; \<^verbatim>\<open>&&\<close> and
  \<^verbatim>\<open>||\<close> evaluate their right operand only when the left one does not decide; the
  comparison is that of \<^verbatim>\<open>int\<close>.
\<close>

function evaluateAST :: "Node option \<Rightarrow> facts \<Rightarrow> error + bool" where
  "evaluateAST None data = Inr False"
| "evaluateAST (Some (Node t v l r)) data =
     (if t = OPERAND then
        (if v = ''age > 30'' then
           (case data ''age'' of None \<Rightarrow> Inl OutOfRange | Some a \<Rightarrow> Inr (30 <s a))
         else Inr False)
      else if t = OPERATOR then
        (if v = ''AND'' then
           (case evaluateAST l data of
              Inl e \<Rightarrow> Inl e
            | Inr b \<Rightarrow> if b then evaluateAST r data else Inr False)
         else if v = ''OR'' then
           (case evaluateAST l data of
              Inl e \<Rightarrow> Inl e
            | Inr b \<Rightarrow> if b then Inr True else evaluateAST r data)
         else Inr False)
      else Inr False)"
  by pat_completeness auto
termination
  by (relation "measure (\<lambda>(n, d). size_option size n)") auto

subsection \<open>The condition grammar of the specification\<close>

text \<open>
  Modelled from the spec: the grammar of conditions, which the source does not have (it
  compares the whole condition string with one literal). A condition is a field, a
  comparison operator out of \<open>>\<close>, \<open><\<close>, \<open>>=\<close>, \<open><=\<close>, \<open>==\<close>, \<open>!=\<close> and a literal,
  separated by spaces.
\<close>

fun words_acc :: "string \<Rightarrow> string \<Rightarrow> string list" where
  "words_acc cur [] = (if cur = [] then [] else [cur])"
| "words_acc cur (c # cs) =
     (if c = CHR '' '' then (if cur = [] then words_acc [] cs else cur # words_acc [] cs)
      else words_acc (cur @ [c]) cs)"

definition comparison_operators :: "string list" where
  "comparison_operators = [''>'', ''<'', ''>='', ''<='', ''=='', ''!='']"

definition parses_condition :: "string \<Rightarrow> bool" where
  "parses_condition c =
     (case words_acc [] c of
        [field, opr, literal] \<Rightarrow> opr \<in> set comparison_operators
      | _ \<Rightarrow> False)"

section \<open>Properties\<close>

subsection \<open>Round trip through the document representation\<close>

lemma toBSON_parseBSON:
  "\<exists>doc. toBSON (Some n) = Inr doc \<and> parseBSON doc = Inr n"
proof (induction n)
  case (Node t v l r)
  have L: "l = None \<or> (\<exists>m d. l = Some m \<and> toBSON l = Inr d \<and> parseBSON d = Inr m)"
    using Node.IH(1) by (cases l) auto
  have R: "r = None \<or> (\<exists>m d. r = Some m \<and> toBSON r = Inr d \<and> parseBSON d = Inr m)"
    using Node.IH(2) by (cases r) auto
  from L R show ?case
    by (cases t) (auto simp: parseBSON.simps [of "_ # _"])
qed

text \<open>
  C1: for every tree \<open>T\<close>, encoding succeeds and decoding the encoding gives a tree that
  evaluates as \<open>T\<close> does against every fact record (it is \<open>T\<close> itself). Every tree made
  by the node constructor or by \<open>combineRules\<close> is a value of \<open>Node\<close>.
\<close>

theorem roundtrip_evaluates_identically:
  "\<exists>doc T'. toBSON (Some T) = Inr doc \<and> parseBSON doc = Inr T' \<and> T' = T \<and>
     (\<forall>data. evaluateAST (Some T') data = evaluateAST (Some T) data)"
  using toBSON_parseBSON [of T] by auto

subsection \<open>Short-circuit evaluation\<close>

text \<open>
  C2: an AND node whose left child evaluates to false evaluates to false whatever the
  right child is, also when evaluating the right child alone would raise; an OR node
  whose left child evaluates to true evaluates to true whatever the right child is.
\<close>

theorem short_circuit:
  "(evaluateAST l data = Inr False \<longrightarrow>
      evaluateAST (Some (Node OPERATOR ''AND'' l r)) data = Inr False) \<and>
   (evaluateAST l' data' = Inr True \<longrightarrow>
      evaluateAST (Some (Node OPERATOR ''OR'' l' r')) data' = Inr True)"
  by simp

theorem short_circuit_witness:
  "evaluateAST (Some (Node OPERAND ''salary > 50000'' None None)) Map.empty = Inr False \<and>
   evaluateAST (Some (Node OPERAND ''age > 30'' None None)) Map.empty = Inl OutOfRange \<and>
   evaluateAST (Some (Node OPERATOR ''AND''
       (Some (Node OPERAND ''salary > 50000'' None None))
       (Some (Node OPERAND ''age > 30'' None None)))) Map.empty = Inr False \<and>
   evaluateAST (Some (Node OPERAND ''age > 30'' None None)) [''age'' \<mapsto> 35] = Inr True \<and>
   evaluateAST (Some (Node OPERATOR ''OR''
       (Some (Node OPERAND ''age > 30'' None None))
       (Some (Node OPERATOR ''AND'' None None)))) [''age'' \<mapsto> 35] = Inr True"
  using short_circuit [of "Some (Node OPERAND ''salary > 50000'' None None)" Map.empty
      "Some (Node OPERAND ''age > 30'' None None)"
      "Some (Node OPERAND ''age > 30'' None None)" "[''age'' \<mapsto> 35]"
      "Some (Node OPERATOR ''AND'' None None)"]
  by simp

subsection \<open>Combining rules in any order\<close>

text \<open>
  Once the root has both children, every further rule goes under a new AND root, so the
  loop computes the conjunction of the root and the rules, provided no rule is a null
  pointer and no rule raises.
\<close>

lemma evaluateAST_loop:
  assumes "\<forall>r \<in> set rules. r \<noteq> None"
    and "\<forall>r \<in> set rules. \<exists>b. evaluateAST r data = Inr b"
    and "left root \<noteq> None" and "right root \<noteq> None"
    and "evaluateAST (Some root) data = Inr b0"
  shows "evaluateAST (Some (combineRules_loop root rules)) data =
         Inr (b0 \<and> (\<forall>r \<in> set rules. evaluateAST r data = Inr True))"
  using assms
proof (induction rules arbitrary: root b0)
  case Nil
  then show ?case by simp
next
  case (Cons rule rules)
  obtain b where b: "evaluateAST rule data = Inr b"
    using Cons.prems(2) by auto
  let ?root = "Node OPERATOR ''AND'' (Some root) rule"
  have step: "combineRules_step root rule = ?root"
    using Cons.prems(3,4) by (auto simp add: combineRules_step_def)
  have ev: "evaluateAST (Some ?root) data = Inr (b0 \<and> b)"
    using Cons.prems(5) b by simp
  have "evaluateAST (Some (combineRules_loop ?root rules)) data =
        Inr ((b0 \<and> b) \<and> (\<forall>r \<in> set rules. evaluateAST r data = Inr True))"
    using Cons.prems(1,2) ev by (intro Cons.IH) auto
  then show ?case
    using b step by auto
qed

lemma evaluateAST_combineRules:
  assumes "\<forall>r \<in> set rules. r \<noteq> None"
    and "\<forall>r \<in> set rules. \<exists>b. evaluateAST r data = Inr b"
  shows "evaluateAST (combineRules rules) data =
         Inr (2 \<le> length rules \<and> (\<forall>r \<in> set rules. evaluateAST r data = Inr True))"
proof (cases rules)
  case Nil
  then show ?thesis by (simp add: combineRules_def)
next
  case (Cons r1 rest)
  note outer = Cons
  obtain b1 where b1: "evaluateAST r1 data = Inr b1"
    using assms(2) Cons by auto
  show ?thesis
  proof (cases rest)
    case Nil
    then show ?thesis
      using outer b1 by (simp add: combineRules_def combineRules_step_def)
  next
    case (Cons r2 rest2)
    obtain b2 where b2: "evaluateAST r2 data = Inr b2"
      using assms(2) outer Cons by auto
    let ?root = "Node OPERATOR ''AND'' r1 r2"
    have nn: "r1 \<noteq> None" "r2 \<noteq> None"
      using assms(1) outer Cons by auto
    have loop: "combineRules rules = Some (combineRules_loop ?root rest2)"
      using nn outer Cons by (auto simp add: combineRules_def combineRules_step_def)
    have "evaluateAST (Some (combineRules_loop ?root rest2)) data =
          Inr ((b1 \<and> b2) \<and> (\<forall>r \<in> set rest2. evaluateAST r data = Inr True))"
      using assms outer Cons nn b1 b2 by (intro evaluateAST_loop) auto
    then show ?thesis
      using loop outer Cons b1 b2 by auto
  qed
qed

text \<open>
  No lookup fails when the fact record has the key \<open>age\<close>: then evaluation returns a
  boolean for every tree.
\<close>

lemma evaluateAST_returns_with_age:
  "data ''age'' \<noteq> None \<Longrightarrow> \<exists>b. evaluateAST n data = Inr b"
proof (induction n data rule: evaluateAST.induct)
  case (1 data)
  then show ?case by auto
next
  case (2 t v l r data)
  show ?case
  proof (cases t)
    case OPERAND
    with "2.prems" show ?thesis by auto
  next
    case OPERATOR
    note op = this
    show ?thesis
    proof (cases "v = ''AND''")
      case True
      from op True "2.prems" "2.IH"(1) obtain b where b: "evaluateAST l data = Inr b"
        by auto
      show ?thesis
      proof (cases b)
        case True
        with op \<open>v = ''AND''\<close> b "2.prems" "2.IH"(2) show ?thesis by auto
      next
        case False
        with op \<open>v = ''AND''\<close> b show ?thesis by auto
      qed
    next
      case False
      note nand = this
      show ?thesis
      proof (cases "v = ''OR''")
        case True
        from op nand True "2.prems" "2.IH"(3) obtain b where b: "evaluateAST l data = Inr b"
          by auto
        show ?thesis
        proof (cases b)
          case True
          with op nand \<open>v = ''OR''\<close> b show ?thesis by auto
        next
          case False
          with op nand \<open>v = ''OR''\<close> b "2.prems" "2.IH"(4) show ?thesis by auto
        qed
      next
        case False
        with op nand show ?thesis by auto
      qed
    qed
  qed
qed

text \<open>
  C3, as stated, fails: with the two rules \<open>salary > 50000\<close> and \<open>age > 30\<close> and a fact
  record without \<open>age\<close>, one order returns false (the first rule is false, the second is
  never evaluated) and the other order raises \<^verbatim>\<open>std::out_of_range\<close>.
\<close>

theorem combineRules_permutation_counterexample:
  "mset [Some (Node OPERAND ''salary > 50000'' None None),
         Some (Node OPERAND ''age > 30'' None None)] =
   mset [Some (Node OPERAND ''age > 30'' None None),
         Some (Node OPERAND ''salary > 50000'' None None)] \<and>
   evaluateAST (combineRules [Some (Node OPERAND ''salary > 50000'' None None),
                              Some (Node OPERAND ''age > 30'' None None)])
     [''salary'' \<mapsto> 60000] = Inr False \<and>
   evaluateAST (combineRules [Some (Node OPERAND ''age > 30'' None None),
                              Some (Node OPERAND ''salary > 50000'' None None)])
     [''salary'' \<mapsto> 60000] = Inl OutOfRange"
  by (simp add: combineRules_def combineRules_step_def)

text \<open>
  C3, amended: for rule trees (no null pointer among them) and a fact record against
  which no rule raises when evaluated alone, the combined tree of every permutation of
  the rules evaluates to the same result.
\<close>

theorem combineRules_permutation:
  assumes "mset rules' = mset rules"
    and "\<forall>r \<in> set rules. r \<noteq> None"
    and "\<forall>r \<in> set rules. \<exists>b. evaluateAST r data = Inr b"
  shows "evaluateAST (combineRules rules') data = evaluateAST (combineRules rules) data"
proof -
  have s: "set rules' = set rules"
    using assms(1) by (rule mset_eq_setD)
  have l: "length rules' = length rules"
    using assms(1) by (rule mset_eq_length)
  show ?thesis
    using assms(2,3) by (simp add: evaluateAST_combineRules s l)
qed

theorem combineRules_permutation_witness:
  "mset [Some (Node OPERATOR ''OR'' (Some (Node OPERAND ''age > 30'' None None)) None),
         Some (Node OPERAND ''salary > 50000'' None None),
         Some (Node OPERAND ''age > 30'' None None)] =
   mset [Some (Node OPERAND ''salary > 50000'' None None),
         Some (Node OPERAND ''age > 30'' None None),
         Some (Node OPERATOR ''OR'' (Some (Node OPERAND ''age > 30'' None None)) None)] \<and>
   evaluateAST (combineRules
       [Some (Node OPERATOR ''OR'' (Some (Node OPERAND ''age > 30'' None None)) None),
        Some (Node OPERAND ''salary > 50000'' None None),
        Some (Node OPERAND ''age > 30'' None None)]) [''age'' \<mapsto> 35] =
   evaluateAST (combineRules
       [Some (Node OPERAND ''salary > 50000'' None None),
        Some (Node OPERAND ''age > 30'' None None),
        Some (Node OPERATOR ''OR'' (Some (Node OPERAND ''age > 30'' None None)) None)])
     [''age'' \<mapsto> 35]"
proof -
  let ?a = "Some (Node OPERAND ''salary > 50000'' None None)"
  let ?b = "Some (Node OPERAND ''age > 30'' None None)"
  let ?c = "Some (Node OPERATOR ''OR'' (Some (Node OPERAND ''age > 30'' None None)) None)"
  let ?d = "[''age'' \<mapsto> (35 :: 32 word)]"
  have h1: "mset [?c, ?a, ?b] = mset [?a, ?b, ?c]"
    by simp
  have h2: "\<forall>r \<in> set [?a, ?b, ?c]. r \<noteq> None"
    by simp
  have h3: "\<forall>r \<in> set [?a, ?b, ?c]. \<exists>b. evaluateAST r ?d = Inr b"
    by auto
  show ?thesis
    using h1 combineRules_permutation [OF h1 h2 h3] by blast
qed

subsection \<open>Operands and the fact record\<close>

text \<open>
  C4, as stated, fails: the operand \<open>height > 180\<close> against a fact record without
  \<open>height\<close> evaluates to false.
\<close>

theorem operand_missing_fact_counterexample:
  "[''age'' \<mapsto> 35 :: 32 word] ''height'' = None \<and>
   evaluateAST (Some (Node OPERAND ''height > 180'' None None)) [''age'' \<mapsto> 35] = Inr False"
  by simp

text \<open>
  C4, amended: the operand \<open>age > 30\<close> against a fact record without \<open>age\<close> raises
  \<^verbatim>\<open>std::out_of_range\<close>; the operand \<open>height > 180\<close> evaluates to false against every
  fact record.
\<close>

theorem operand_missing_fact:
  "(data ''age'' = None \<longrightarrow>
      evaluateAST (Some (Node OPERAND ''age > 30'' l r)) data = Inl OutOfRange) \<and>
   evaluateAST (Some (Node OPERAND ''height > 180'' l' r')) data' = Inr False"
  by simp

theorem operand_missing_fact_witness:
  "[''salary'' \<mapsto> 60000 :: 32 word] ''age'' = None \<and>
   evaluateAST (Some (Node OPERAND ''age > 30'' None None)) [''salary'' \<mapsto> 60000]
     = Inl OutOfRange"
  using operand_missing_fact [of "[''salary'' \<mapsto> 60000]" None None]
  by simp

text \<open>
  C5, as stated, fails: the operand \<open>age >> 30\<close> does not parse under the grammar and
  evaluates to false.
\<close>

theorem malformed_condition_counterexample:
  "\<not> parses_condition ''age >> 30'' \<and>
   evaluateAST (Some (Node OPERAND ''age >> 30'' None None)) [''age'' \<mapsto> 35] = Inr False"
  by (simp add: parses_condition_def comparison_operators_def)

text \<open>
  C5, amended: an operand whose condition does not parse under the grammar evaluates to
  false against every fact record; no error is raised.
\<close>

theorem malformed_condition_false:
  assumes "\<not> parses_condition c"
  shows "evaluateAST (Some (Node OPERAND c l r)) data = Inr False"
proof -
  have "parses_condition ''age > 30''"
    by (simp add: parses_condition_def comparison_operators_def)
  with assms have "c \<noteq> ''age > 30''"
    by auto
  then show ?thesis
    by simp
qed

theorem malformed_condition_false_witness:
  "\<not> parses_condition ''30 age'' \<and>
   evaluateAST (Some (Node OPERAND ''30 age'' None None)) Map.empty = Inr False"
proof -
  have h: "\<not> parses_condition ''30 age''"
    by (simp add: parses_condition_def comparison_operators_def)
  show ?thesis
    using h malformed_condition_false [OF h, of None None Map.empty] by simp
qed

subsection \<open>Combining no rule and one rule\<close>

text \<open>
  C6, as stated, fails: \<open>combineRules\<close> of the empty list returns a node.
\<close>

theorem combineRules_empty_counterexample:
  "combineRules [] = Some (Node OPERATOR ''AND'' None None)"
  by (simp add: combineRules_def)

text \<open>
  C6, amended: \<open>combineRules\<close> of the empty list returns an AND operator node without
  children, which evaluates to false against every fact record.
\<close>

theorem combineRules_empty:
  "combineRules [] = Some (Node OPERATOR ''AND'' None None) \<and>
   evaluateAST (combineRules []) data = Inr False"
  by (simp add: combineRules_def)

text \<open>
  C7: \<open>combineRules\<close> of the single rule \<open>age > 30\<close> is an AND node with that rule on
  the left and nothing on the right. Against the fact record with \<open>age = 35\<close> the rule
  alone is true and the combined tree is false.
\<close>

theorem combineRules_single_diverges:
  "evaluateAST (Some (Node OPERAND ''age > 30'' None None)) [''age'' \<mapsto> 35] = Inr True \<and>
   combineRules [Some (Node OPERAND ''age > 30'' None None)] =
     Some (Node OPERATOR ''AND'' (Some (Node OPERAND ''age > 30'' None None)) None) \<and>
   evaluateAST (combineRules [Some (Node OPERAND ''age > 30'' None None)]) [''age'' \<mapsto> 35]
     = Inr False"
  by (simp add: combineRules_def combineRules_step_def)

subsection \<open>Trees that are not well formed\<close>

text \<open>
  C8, as stated, fails: the null node, an operator node with the value \<open>XOR\<close> and an
  AND node without a right child all evaluate to false.
\<close>

theorem evaluateAST_invalid_tree_counterexample:
  "evaluateAST None [''age'' \<mapsto> 35] = Inr False \<and>
   evaluateAST (Some (Node OPERATOR ''XOR''
       (Some (Node OPERAND ''age > 30'' None None))
       (Some (Node OPERAND ''age > 30'' None None)))) [''age'' \<mapsto> 35] = Inr False \<and>
   evaluateAST (Some (Node OPERATOR ''AND''
       (Some (Node OPERAND ''age > 30'' None None)) None)) [''age'' \<mapsto> 35] = Inr False"
  by simp

text \<open>
  C8, amended: the null node evaluates to false; an operator node whose value is
  neither \<open>AND\<close> nor \<open>OR\<close> evaluates to false; an absent child counts as false, so an
  AND node without a left child is false, an AND node without a right child is false
  when its left child does not raise, and an OR node with one child absent evaluates as
  its other child.
\<close>

theorem evaluateAST_invalid_tree:
  "evaluateAST None data = Inr False \<and>
   (v \<noteq> ''AND'' \<and> v \<noteq> ''OR'' \<longrightarrow>
      evaluateAST (Some (Node OPERATOR v l r)) data = Inr False) \<and>
   evaluateAST (Some (Node OPERATOR ''AND'' None r)) data = Inr False \<and>
   evaluateAST (Some (Node OPERATOR ''AND'' l None)) data =
     (case evaluateAST l data of Inl e \<Rightarrow> Inl e | Inr b \<Rightarrow> Inr False) \<and>
   evaluateAST (Some (Node OPERATOR ''OR'' None r)) data = evaluateAST r data \<and>
   evaluateAST (Some (Node OPERATOR ''OR'' l None)) data = evaluateAST l data"
  by (auto split: sum.splits)

theorem evaluateAST_invalid_tree_witness:
  "''NOT'' \<noteq> ''AND'' \<and> ''NOT'' \<noteq> ''OR'' \<and>
   evaluateAST (Some (Node OPERATOR ''NOT''
       (Some (Node OPERAND ''age > 30'' None None))
       (Some (Node OPERAND ''age > 30'' None None)))) [''age'' \<mapsto> 35] = Inr False"
  using evaluateAST_invalid_tree [of "[''age'' \<mapsto> 35]" "''NOT''"
      "Some (Node OPERAND ''age > 30'' None None)"
      "Some (Node OPERAND ''age > 30'' None None)"]
  by simp

subsection \<open>Documents with an unknown type\<close>

text \<open>
  C9, as stated, fails: the document with type \<open>bogus\<close> decodes to an operand node.
\<close>

theorem parseBSON_unknown_type_counterexample:
  "parseBSON [(''type'', Utf8 ''bogus''), (''value'', Utf8 ''age > 30'')] =
     Inr (Node OPERAND ''age > 30'' None None)"
  by (simp add: parseBSON.simps)

text \<open>
  C9, amended: a document whose type is a string other than \<open>operator\<close> decodes to an
  operand node whenever decoding returns, and decoding does return when the value is a
  string and the document has neither a left nor a right key.
\<close>

theorem parseBSON_unknown_type:
  assumes "map_of doc ''type'' = Some (Utf8 ty)" and "ty \<noteq> ''operator''"
  shows "(\<forall>n. parseBSON doc = Inr n \<longrightarrow> type n = OPERAND) \<and>
         (map_of doc ''value'' = Some (Utf8 v) \<and> map_of doc ''left'' = None \<and>
          map_of doc ''right'' = None \<longrightarrow> parseBSON doc = Inr (Node OPERAND v None None))"
  using assms
  by (auto simp: parseBSON.simps [of doc] Let_def split: sum.splits if_splits)

theorem parseBSON_unknown_type_witness:
  "map_of [(''type'', Utf8 ''unknown''), (''value'', Utf8 ''x'')] ''type'' =
     Some (Utf8 ''unknown'') \<and> ''unknown'' \<noteq> ''operator'' \<and>
   parseBSON [(''type'', Utf8 ''unknown''), (''value'', Utf8 ''x'')] =
     Inr (Node OPERAND ''x'' None None) \<and>
   type (Node OPERAND ''x'' None None) = OPERAND"
  using parseBSON_unknown_type
    [of "[(''type'', Utf8 ''unknown''), (''value'', Utf8 ''x'')]" "''unknown''" "''x''"]
  by simp

subsection \<open>Operands other than the recognised condition\<close>

text \<open>
  C10: an operand node whose value is any string other than exactly \<open>age > 30\<close>
  evaluates to false for every fact record; the result does not depend on the record.
\<close>

theorem operand_unrecognised_false:
  "v \<noteq> ''age > 30'' \<Longrightarrow> evaluateAST (Some (Node OPERAND v l r)) data = Inr False"
  by simp

theorem operand_unrecognised_false_witness:
  "''salary > 50000'' \<noteq> ''age > 30'' \<and>
   evaluateAST (Some (Node OPERAND ''salary > 50000'' None None)) [''salary'' \<mapsto> 60000]
     = Inr False"
  using operand_unrecognised_false
    [of "''salary > 50000''" None None "[''salary'' \<mapsto> 60000]"]
  by simp

end
